theory Spec2Isabelle
  imports Complex_Main "HOL-Library.Word" "HOL-Library.Signed_Division"
begin

section \<open>The Legio firmware of the PRat distortion: control core\<close>

text \<open>
  The development embeds \<^verbatim>\<open>src/legio/legio.cpp\<close>: the audio callback, run once per
  audio block from the audio interrupt, and the status loop of \<^verbatim>\<open>main\<close>.
  The distortion engine, the noise gate and the hardware are collaborators whose code is
  not part of the file. They are modelled the way a mock records them: every call the
  firmware makes on a collaborator is an entry of a call log, in program order, and every
  value a collaborator hands back (a knob reading, the saturation, the envelope) is a
  field of the block's environment. The C++ type \<^verbatim>\<open>float\<close> is modelled by
  \<^typ>\<open>real\<close>: sums, quotients and comparisons are the exact ones.
\<close>

subsection \<open>Collaborators\<close>

text \<open>The three positions \<^verbatim>\<open>Switch3::Read()\<close> can return.\<close>

datatype switch3 = POS_CENTER | POS_UP | POS_DOWN

text \<open>The parameter names of \<^verbatim>\<open>PRatDist\<close> used by the firmware.\<close>

datatype dist_param =
  P_GAIN | P_FILTER | P_LEVEL | P_DRYWET | P_SILED | P_HARD | P_TIGHT | P_RUETZ | P_BYPASS

text \<open>The parameter names of \<^verbatim>\<open>NoiseGate\<close> used by the firmware (prefixed, since
  \<^verbatim>\<open>NoiseGate::P_BYPASS\<close> and \<^verbatim>\<open>PRatDist::P_BYPASS\<close> share a name).\<close>

datatype ng_param =
  NG_P_THRESHOLD | NG_P_RELEASE | NG_P_BYPASS | NG_P_DETECTOR_GAIN | NG_P_REDUCTION | NG_P_SLOPE

text \<open>The four audio buffers of a block (the macros \<^verbatim>\<open>IN_L\<close>, \<^verbatim>\<open>IN_R\<close>,
  \<^verbatim>\<open>OUT_L\<close>, \<^verbatim>\<open>OUT_R\<close>), the two LEDs, and the four static catch values of the
  callback.\<close>

datatype buffer = IN_L | IN_R | OUT_L | OUT_R

datatype led = LED_LEFT | LED_RIGHT

datatype grab = Cv_filter | Cv_mix | Ng_threshold | Ng_release

text \<open>One entry of the call log. Queries that only read a collaborator are not logged;
  their results come from the block environment.\<close>

datatype call =
    Hw_ProcessAnalogControls
  | Utils_Copy buffer buffer buffer buffer nat
  | Grab_Update grab real
  | Grab_Lock grab
  | Dist_SetParam dist_param real
  | Dist_Update
  | Dist_Process buffer buffer buffer buffer nat
  | Ng_SetParam ng_param real
  | Ng_Update
  | Ng_Process buffer buffer buffer buffer buffer nat
  | Hw_SetLed led real real real
  | Hw_UpdateLeds

text \<open>
  Modelled from the spec: the hardware library is not part of the sources. Section 3 of
  the specification gives the per-block snapshot of the controls: the encoder's held flag
  and its delta, an integer (\<^verbatim>\<open>Encoder::Increment()\<close> returns an \<^verbatim>\<open>int32_t\<close>), the
  two knobs, the pitch CV, the two switches and the gate input. The record adds the
  readings \<^verbatim>\<open>dist.GetSaturation()\<close> and \<^verbatim>\<open>ng.GetEnvelope()\<close> that the two engines
  return after they have processed the block, and the argument \<^verbatim>\<open>size\<close> of the
  callback, the number of samples of the block.
\<close>

record block_env =
  encoder_Pressed :: bool
  encoder_Increment :: int
  knob_top :: real
  knob_bottom :: real
  control_pitch :: real
  sw_left :: switch3
  sw_right :: switch3
  hw_Gate :: bool
  dist_GetSaturation :: real
  ng_GetEnvelope :: real
  block_size :: nat

text \<open>
  Modelled from the spec: \<^verbatim>\<open>fclamp\<close> comes from the DSP library, which is not part
  of the sources; it clamps its first argument to the interval given by the other two
  (\<^verbatim>\<open>fmin(fmax(in, min), max)\<close>).
\<close>

definition fclamp :: "real \<Rightarrow> real \<Rightarrow> real \<Rightarrow> real" where
  "fclamp x lo hi = min (max x lo) hi"

subsection \<open>The catch value\<close>

text \<open>
  Modelled from the spec: the class \<^verbatim>\<open>GrabValue\<close> (\<^verbatim>\<open>GrabValue.h\<close>) is missing from
  the sources. Section 4.1 of the specification gives its state, a held value and a
  tracking flag, and its three operations. \<^verbatim>\<open>Update\<close> on a tracking control takes the
  raw reading; on a control that is not tracking it leaves the held value pinned until the
  raw reading meets it within a tolerance, and tracks from then on. \<^verbatim>\<open>Lock\<close> keeps the
  held value and stops tracking. \<^verbatim>\<open>Get\<close> returns the held value. The tolerance is not
  given by the specification and is a parameter \<open>tol\<close> throughout.
\<close>

record GrabValue =
  heldValue :: real
  tracking :: bool

definition Update :: "real \<Rightarrow> real \<Rightarrow> GrabValue \<Rightarrow> GrabValue" where
  "Update tol raw g =
     (if tracking g then g\<lparr>heldValue := raw\<rparr>
      else if \<bar>raw - heldValue g\<bar> \<le> tol then g\<lparr>heldValue := raw, tracking := True\<rparr>
      else g)"

definition Lock :: "GrabValue \<Rightarrow> GrabValue" where
  "Lock g = g\<lparr>tracking := False\<rparr>"

definition Get :: "GrabValue \<Rightarrow> real" where
  "Get g = heldValue g"

subsection \<open>Program state\<close>

text \<open>The globals \<^verbatim>\<open>initialized\<close>, \<^verbatim>\<open>envVal\<close>, \<^verbatim>\<open>satVal\<close>, the statics of
  \<^verbatim>\<open>AudioCallback\<close>, and the two locals of \<^verbatim>\<open>main\<close> that outlive an iteration of its
  loop (\<open>main_first\<close> is the \<^verbatim>\<open>static bool first\<close> of \<^verbatim>\<open>main\<close>, \<open>boottime\<close> a
  \<^verbatim>\<open>uint32_t\<close>).\<close>

record state =
  initialized :: bool
  envVal :: real
  satVal :: real
  first :: bool
  cur_gain :: real
  cur_level :: real
  cv_filter :: GrabValue
  cv_mix :: GrabValue
  ng_threshold :: GrabValue
  ng_release :: GrabValue
  main_first :: bool
  boottime :: "32 word"

text \<open>The state after the static initialisers have run and \<^verbatim>\<open>main\<close> has sampled the
  clock. The tracking flag \<open>t\<close> of a freshly constructed catch value is not given by the
  specification and is a parameter.\<close>

definition boot_state :: "bool \<Rightarrow> 32 word \<Rightarrow> state" where
  "boot_state t b =
     \<lparr> initialized = False, envVal = 0, satVal = 0,
       first = True, cur_gain = 0.5, cur_level = 0.5,
       cv_filter = \<lparr>heldValue = 0, tracking = t\<rparr>,
       cv_mix = \<lparr>heldValue = 0, tracking = t\<rparr>,
       ng_threshold = \<lparr>heldValue = 0.4, tracking = t\<rparr>,
       ng_release = \<lparr>heldValue = 0.5, tracking = t\<rparr>,
       main_first = True, boottime = b \<rparr>"

subsection \<open>The audio callback\<close>

text \<open>Line 63: shift is the encoder being held, except on the first processed block.\<close>

definition shift_state :: "block_env \<Rightarrow> state \<Rightarrow> bool" where
  "shift_state hw s = (encoder_Pressed hw \<and> \<not> first s)"

text \<open>
  \<^verbatim>\<open>AudioCallback\<close>, lines 39 to 140, statement by statement. The result is the new
  state and the calls made during the block. \<^verbatim>\<open>hw.encoder.Increment() / 16\<close> divides
  two integers, which in C++ truncates towards zero (\<open>sdiv\<close>), before the quotient is
  converted to \<^verbatim>\<open>float\<close>.
\<close>

definition AudioCallback :: "real \<Rightarrow> block_env \<Rightarrow> state \<Rightarrow> state \<times> call list" where
  "AudioCallback tol hw s =
     (if \<not> initialized s then
        (s, [Hw_ProcessAnalogControls, Utils_Copy IN_L IN_R OUT_L OUT_R (block_size hw)])
      else
        let shift = shift_state hw s;
            cv0 = knob_top hw;
            cv1 = knob_bottom hw;
            s1 = (if \<not> shift then
                    s\<lparr>cv_filter := Update tol cv0 (cv_filter s),
                      cv_mix := Update tol cv1 (cv_mix s),
                      ng_threshold := Lock (ng_threshold s),
                      ng_release := Lock (ng_release s)\<rparr>
                  else
                    s\<lparr>cv_filter := Lock (cv_filter s),
                      cv_mix := Lock (cv_mix s),
                      ng_threshold := Update tol cv0 (ng_threshold s),
                      ng_release := Update tol cv1 (ng_release s)\<rparr>);
            grab_calls = (if \<not> shift then
                    [Grab_Update Cv_filter cv0, Grab_Update Cv_mix cv1,
                     Grab_Lock Ng_threshold, Grab_Lock Ng_release]
                  else
                    [Grab_Lock Cv_filter, Grab_Lock Cv_mix,
                     Grab_Update Ng_threshold cv0, Grab_Update Ng_release cv1]);
            encInc = real_of_int (encoder_Increment hw sdiv 16);
            s2 = (if shift then s1\<lparr>cur_level := fclamp (cur_level s1 + encInc) 0 1\<rparr>
                  else s1\<lparr>cur_gain := fclamp (cur_gain s1 + encInc) 0 1\<rparr>);
            gain_cv = control_pitch hw;
            gain = fclamp (cur_gain s2 + gain_cv) 0 1;
            filter_v = fclamp (Get (cv_filter s2)) 0 1;
            level = fclamp (cur_level s2) 0 1;
            mix = fclamp (Get (cv_mix s2)) 0 1;
            sw_clip = sw_left hw;
            sw_mod = sw_right hw;
            hard = (if sw_clip = POS_CENTER \<or> hw_Gate hw then 1 else 0 :: real);
            bypass = (if sw_clip = POS_DOWN then 1 else 0 :: real);
            ruetz = (if sw_mod = POS_CENTER then 1 else 0 :: real);
            tight = (if sw_mod = POS_DOWN then 1 else 0 :: real);
            dist_calls =
              [Dist_SetParam P_GAIN gain, Dist_SetParam P_FILTER filter_v,
               Dist_SetParam P_LEVEL level]
              @ (if hard \<ge> 0.5 then [Dist_SetParam P_DRYWET 1, Dist_SetParam P_SILED mix]
                 else [Dist_SetParam P_DRYWET mix])
              @ [Dist_SetParam P_HARD hard, Dist_SetParam P_TIGHT tight,
                 Dist_SetParam P_RUETZ ruetz, Dist_SetParam P_BYPASS bypass,
                 Dist_Update];
            ng_calls = (if first s2 \<or> shift then
                    [Ng_SetParam NG_P_THRESHOLD (Get (ng_threshold s2)),
                     Ng_SetParam NG_P_RELEASE (Get (ng_release s2)),
                     Ng_SetParam NG_P_BYPASS (if Get (ng_threshold s2) < 0.05 then 1 else 0),
                     Ng_Update]
                  else []);
            process_calls =
              [Dist_Process IN_L IN_R OUT_L OUT_R (block_size hw),
               Ng_Process OUT_L OUT_R IN_L OUT_L OUT_R (block_size hw)];
            s3 = s2\<lparr>satVal := fclamp (dist_GetSaturation hw / 5) 0 1,
                    envVal := fclamp (ng_GetEnvelope hw * 2.5) 0 1,
                    first := False\<rparr>
        in (s3, Hw_ProcessAnalogControls # grab_calls @ dist_calls @ ng_calls @ process_calls))"

subsection \<open>The status loop\<close>

text \<open>
  One iteration of the \<^verbatim>\<open>while (1)\<close> loop of \<^verbatim>\<open>main\<close>, lines 165 to 181, where
  \<open>now\<close> is what \<^verbatim>\<open>System::GetNow()\<close> returns in this iteration. The subtraction is the
  one of \<^verbatim>\<open>uint32_t\<close> and wraps around; the comparison is unsigned.
\<close>

definition main_iteration :: "32 word \<Rightarrow> state \<Rightarrow> state \<times> call list" where
  "main_iteration now s =
     (if \<not> initialized s then
        (if now - boottime s < 1000 then
           (if main_first s then
              (s\<lparr>main_first := False\<rparr>,
               [Hw_SetLed LED_LEFT 1 0 0, Hw_SetLed LED_RIGHT 1 0 1, Hw_UpdateLeds])
            else (s, []))
         else (s\<lparr>initialized := True\<rparr>, []))
      else
        (s, [Hw_SetLed LED_LEFT 0 (envVal s) 0, Hw_SetLed LED_RIGHT (satVal s) 0 0,
             Hw_UpdateLeds]))"

subsection \<open>Runs\<close>

text \<open>
  The two execution contexts interleave: an event is either one iteration of the status
  loop, at the time it reads from the clock, or one audio block. Both are taken as
  atomic; the only variable one context writes and the other reads more than once per
  event is the telemetry pair.
\<close>

datatype event = Main_Iteration "32 word" | Audio_Block block_env

fun step :: "real \<Rightarrow> event \<Rightarrow> state \<Rightarrow> state \<times> call list" where
  "step tol (Main_Iteration now) s = main_iteration now s"
| "step tol (Audio_Block hw) s = AudioCallback tol hw s"

fun run :: "real \<Rightarrow> event list \<Rightarrow> state \<Rightarrow> state" where
  "run tol [] s = s"
| "run tol (e # es) s = run tol es (fst (step tol e s))"

text \<open>A sequence of audio blocks: for each block, the shift state it computed and the
  calls it made.\<close>

fun run_blocks :: "real \<Rightarrow> block_env list \<Rightarrow> state \<Rightarrow> (bool \<times> call list) list" where
  "run_blocks tol [] s = []"
| "run_blocks tol (hw # hws) s =
     (shift_state hw s, snd (AudioCallback tol hw s))
       # run_blocks tol hws (fst (AudioCallback tol hw s))"

subsection \<open>Reading the call log\<close>

text \<open>The values a block sets for one parameter of the distortion engine, in order.\<close>

fun dist_sets :: "dist_param \<Rightarrow> call list \<Rightarrow> real list" where
  "dist_sets p [] = []"
| "dist_sets p (Dist_SetParam q v # cs) = (if q = p then v # dist_sets p cs else dist_sets p cs)"
| "dist_sets p (c # cs) = dist_sets p cs"

text \<open>The values a block sets for one parameter of the noise gate, in order.\<close>

fun ng_sets :: "ng_param \<Rightarrow> call list \<Rightarrow> real list" where
  "ng_sets p [] = []"
| "ng_sets p (Ng_SetParam q v # cs) = (if q = p then v # ng_sets p cs else ng_sets p cs)"
| "ng_sets p (c # cs) = ng_sets p cs"

text \<open>The calls a block makes on the catch values, in order.\<close>

fun grab_calls :: "call list \<Rightarrow> call list" where
  "grab_calls [] = []"
| "grab_calls (Grab_Update g v # cs) = Grab_Update g v # grab_calls cs"
| "grab_calls (Grab_Lock g # cs) = Grab_Lock g # grab_calls cs"
| "grab_calls (c # cs) = grab_calls cs"

text \<open>
  Modelled from the spec: \<^verbatim>\<open>PRatDist.h\<close> is missing from the sources. A mock of the
  distortion engine keeps the last value set for each parameter name, which is all that
  section 6 of the specification says of \<^verbatim>\<open>SetParam(name, value)\<close>.
\<close>

fun dist_store :: "call list \<Rightarrow> (dist_param \<Rightarrow> real) \<Rightarrow> (dist_param \<Rightarrow> real)" where
  "dist_store [] m = m"
| "dist_store (Dist_SetParam p v # cs) m = dist_store cs (m(p := v))"
| "dist_store (c # cs) m = dist_store cs m"

subsection \<open>Audio buffers\<close>

text \<open>
  Modelled from the spec: \<^verbatim>\<open>Utils.h\<close>, \<^verbatim>\<open>PRatDist.h\<close> and \<^verbatim>\<open>NoiseGate.h\<close> are
  missing from the sources, so what a \<^verbatim>\<open>Process\<close> call computes is unknown. The content
  of a buffer is kept as a term: what the buffer held when the callback was entered, or
  the left or right output of an engine applied to the contents it was given.
  \<^verbatim>\<open>Utils::Copy\<close> is the verbatim stereo copy of section 4.5, the distortion engine reads
  two buffers and writes two (section 6), the gate reads three and writes two.
\<close>

datatype signal =
    Raw buffer
  | Dist_L signal signal
  | Dist_R signal signal
  | Gate_L signal signal signal
  | Gate_R signal signal signal

fun exec_call :: "call \<Rightarrow> (buffer \<Rightarrow> signal) \<Rightarrow> (buffer \<Rightarrow> signal)" where
  "exec_call (Utils_Copy i_l i_r o_l o_r n) m = m(o_l := m i_l, o_r := m i_r)"
| "exec_call (Dist_Process i_l i_r o_l o_r n) m =
     m(o_l := Dist_L (m i_l) (m i_r), o_r := Dist_R (m i_l) (m i_r))"
| "exec_call (Ng_Process a1 a2 a3 o_l o_r n) m =
     m(o_l := Gate_L (m a1) (m a2) (m a3), o_r := Gate_R (m a1) (m a2) (m a3))"
| "exec_call c m = m"

text \<open>The contents of the four buffers after the calls of one block.\<close>

definition buffers_after :: "call list \<Rightarrow> buffer \<Rightarrow> signal" where
  "buffers_after cs = fold exec_call cs Raw"

text \<open>The calls of a block that process audio, in order.\<close>

fun process_calls :: "call list \<Rightarrow> call list" where
  "process_calls [] = []"
| "process_calls (Dist_Process i_l i_r o_l o_r n # cs) =
     Dist_Process i_l i_r o_l o_r n # process_calls cs"
| "process_calls (Ng_Process a1 a2 a3 o_l o_r n # cs) =
     Ng_Process a1 a2 a3 o_l o_r n # process_calls cs"
| "process_calls (c # cs) = process_calls cs"

text \<open>
  What the gate is given by a \<^verbatim>\<open>Process\<close> call. The roles of the arguments are the
  ones of the call at line 132 and of the comment above it, \<^emph>\<open>noise gate uses left input
  for volume detection\<close>: the first two arguments are the stereo signal the gate works on,
  the third is the signal whose level it detects, the last two are where it writes. The
  record holds what the three buffers read by a call contain when the call is made.
\<close>

record gate_reads =
  gatedLeft :: signal
  gatedRight :: signal
  detection :: signal

fun ng_process_reads :: "call list \<Rightarrow> (buffer \<Rightarrow> signal) \<Rightarrow> gate_reads list" where
  "ng_process_reads [] m = []"
| "ng_process_reads (Ng_Process a1 a2 a3 o_l o_r n # cs) m =
     \<lparr>gatedLeft = m a1, gatedRight = m a2, detection = m a3\<rparr>
       # ng_process_reads cs (exec_call (Ng_Process a1 a2 a3 o_l o_r n) m)"
| "ng_process_reads (c # cs) m = ng_process_reads cs (exec_call c m)"

subsection \<open>The cadence the specification gives\<close>

text \<open>
  Section 8 of the specification, in its words: the gate is re-parameterized on block 0
  and on every block whose shift state differs from the one of the block before.
  \<open>shifts\<close> is the list of the shift states of the blocks.
\<close>

definition spec_reparam_due :: "bool list \<Rightarrow> nat \<Rightarrow> bool" where
  "spec_reparam_due shifts k = (k = 0 \<or> shifts ! k \<noteq> shifts ! (k - 1))"

subsection \<open>An invariant of the statics\<close>

text \<open>As long as no block has been processed, the threshold and release controls hold
  the values they were constructed with.\<close>

definition keeps_defaults :: "state \<Rightarrow> bool" where
  "keeps_defaults s =
     (first s \<longrightarrow> heldValue (ng_threshold s) = 0.4 \<and> heldValue (ng_release s) = 0.5)"

subsection \<open>Sample inputs\<close>

text \<open>A state in which the boot window is over and no block has been processed yet, a
  block during which the encoder is left alone, and one during which it is held.\<close>

definition ready_state :: state where
  "ready_state = (boot_state False 0)\<lparr>initialized := True, main_first := False\<rparr>"

definition block_idle :: block_env where
  "block_idle =
     \<lparr> encoder_Pressed = False, encoder_Increment = 0,
       knob_top = 0.3, knob_bottom = 0.7, control_pitch = 0,
       sw_left = POS_UP, sw_right = POS_UP, hw_Gate = False,
       dist_GetSaturation = 5, ng_GetEnvelope = 0.5, block_size = 4 \<rparr>"

definition block_held :: block_env where
  "block_held = block_idle\<lparr>encoder_Pressed := True\<rparr>"

text \<open>The state after the boot window and one processed block during which the encoder
  is left alone, the top knob reads 0.3 and the bottom knob 0: the mix control has caught
  its knob, the filter control has not.\<close>

definition playing_state :: state where
  "playing_state =
     \<lparr> initialized = True, envVal = 1, satVal = 1,
       first = False, cur_gain = 0.5, cur_level = 0.5,
       cv_filter = \<lparr>heldValue = 0, tracking = False\<rparr>,
       cv_mix = \<lparr>heldValue = 0, tracking = True\<rparr>,
       ng_threshold = \<lparr>heldValue = 0.4, tracking = False\<rparr>,
       ng_release = \<lparr>heldValue = 0.5, tracking = False\<rparr>,
       main_first = True, boottime = 0 \<rparr>"

text \<open>Four blocks from the ready state: the encoder left alone, held, held, left alone.\<close>

definition sample_run :: "(bool \<times> call list) list" where
  "sample_run =
     run_blocks (1/100) [block_idle, block_held, block_held, block_idle] ready_state"

section \<open>Properties\<close>

subsection \<open>Mode decoder\<close>

text \<open>
  Claim C5. On every processed block, whatever the two switches and the external gate
  input read, the distortion engine receives each mode flag exactly once, with the value
  of the decoding table: hard is 1 if the clip switch is in the centre or the external
  gate is active and 0 otherwise, bypass is 1 if the clip switch is down and 0 otherwise,
  ruetz is 1 if the mod switch is in the centre and 0 otherwise, tight is 1 if the mod
  switch is down and 0 otherwise.
\<close>

theorem mode_flags_truth_table:
  assumes "initialized s"
  shows "dist_sets P_HARD (snd (AudioCallback tol hw s))
           = [if sw_left hw = POS_CENTER \<or> hw_Gate hw then 1 else 0]
       \<and> dist_sets P_BYPASS (snd (AudioCallback tol hw s))
           = [if sw_left hw = POS_DOWN then 1 else 0]
       \<and> dist_sets P_RUETZ (snd (AudioCallback tol hw s))
           = [if sw_right hw = POS_CENTER then 1 else 0]
       \<and> dist_sets P_TIGHT (snd (AudioCallback tol hw s))
           = [if sw_right hw = POS_DOWN then 1 else 0]"
  using assms by (simp add: AudioCallback_def Let_def)

theorem mode_flags_truth_table_witness:
  "initialized ready_state
   \<and> dist_sets P_HARD
         (snd (AudioCallback (1/100) (block_idle\<lparr>sw_left := POS_CENTER, sw_right := POS_DOWN\<rparr>)
            ready_state)) = [1]
   \<and> dist_sets P_BYPASS
         (snd (AudioCallback (1/100) (block_idle\<lparr>sw_left := POS_CENTER, sw_right := POS_DOWN\<rparr>)
            ready_state)) = [0]
   \<and> dist_sets P_RUETZ
         (snd (AudioCallback (1/100) (block_idle\<lparr>sw_left := POS_CENTER, sw_right := POS_DOWN\<rparr>)
            ready_state)) = [0]
   \<and> dist_sets P_TIGHT
         (snd (AudioCallback (1/100) (block_idle\<lparr>sw_left := POS_CENTER, sw_right := POS_DOWN\<rparr>)
            ready_state)) = [1]"
proof -
  have ready: "initialized ready_state"
    by (simp add: ready_state_def)
  show ?thesis
    using ready
      mode_flags_truth_table [OF ready, of "1/100"
        "block_idle\<lparr>sw_left := POS_CENTER, sw_right := POS_DOWN\<rparr>"]
    by (simp add: block_idle_def)
qed

subsection \<open>Knob multiplexer\<close>

text \<open>
  Claim C7. On every processed block the catch values receive exactly four calls. When
  the block is not shifted, the filter control is updated with the top knob and the mix
  control with the bottom knob, and the threshold and release controls are locked. When
  it is shifted, the threshold control is updated with the top knob and the release
  control with the bottom knob, and the filter and mix controls are locked. So one pair
  is updated and the other locked, never both and never neither, and the four controls
  of the new state are the results of these calls.
\<close>

theorem knob_pairs_exclusive:
  assumes "initialized s"
  shows "grab_calls (snd (AudioCallback tol hw s))
           = (if shift_state hw s then
                [Grab_Lock Cv_filter, Grab_Lock Cv_mix,
                 Grab_Update Ng_threshold (knob_top hw), Grab_Update Ng_release (knob_bottom hw)]
              else
                [Grab_Update Cv_filter (knob_top hw), Grab_Update Cv_mix (knob_bottom hw),
                 Grab_Lock Ng_threshold, Grab_Lock Ng_release])
       \<and> cv_filter (fst (AudioCallback tol hw s))
           = (if shift_state hw s then Lock (cv_filter s)
              else Update tol (knob_top hw) (cv_filter s))
       \<and> cv_mix (fst (AudioCallback tol hw s))
           = (if shift_state hw s then Lock (cv_mix s)
              else Update tol (knob_bottom hw) (cv_mix s))
       \<and> ng_threshold (fst (AudioCallback tol hw s))
           = (if shift_state hw s then Update tol (knob_top hw) (ng_threshold s)
              else Lock (ng_threshold s))
       \<and> ng_release (fst (AudioCallback tol hw s))
           = (if shift_state hw s then Update tol (knob_bottom hw) (ng_release s)
              else Lock (ng_release s))"
  using assms by (simp add: AudioCallback_def Let_def)

theorem knob_pairs_exclusive_witness:
  "initialized ready_state
   \<and> grab_calls (snd (AudioCallback (1/100) block_idle ready_state))
       = [Grab_Update Cv_filter 0.3, Grab_Update Cv_mix 0.7,
          Grab_Lock Ng_threshold, Grab_Lock Ng_release]
   \<and> grab_calls (snd (AudioCallback (1/100) block_held (ready_state\<lparr>first := False\<rparr>)))
       = [Grab_Lock Cv_filter, Grab_Lock Cv_mix,
          Grab_Update Ng_threshold 0.3, Grab_Update Ng_release 0.7]"
proof -
  have ready: "initialized ready_state"
    by (simp add: ready_state_def)
  have later: "initialized (ready_state\<lparr>first := False\<rparr>)"
    by (simp add: ready_state_def)
  show ?thesis
    using ready
      knob_pairs_exclusive [OF ready, of "1/100" block_idle]
      knob_pairs_exclusive [OF later, of "1/100" block_held]
    by (simp add: shift_state_def ready_state_def boot_state_def block_idle_def block_held_def)
qed

text \<open>
  Claim C3, as the code has it. The claim says that one tick of the encoder moves the
  selected value by 1/16. In the code the increment is an integer and is divided by the
  integer 16 before it becomes a \<^verbatim>\<open>float\<close>, so a tick of +1 or -1 contributes 0: from
  the ready state, one clockwise tick leaves the gain at 0.5, and on a shifted block one
  counter-clockwise tick leaves the level at 0.5.
\<close>

theorem encoder_tick_lost:
  "encoder_Increment (block_idle\<lparr>encoder_Increment := 1\<rparr>) = 1
   \<and> cur_gain ready_state = 0.5
   \<and> cur_gain (fst (AudioCallback (1/100) (block_idle\<lparr>encoder_Increment := 1\<rparr>)
        ready_state)) = 0.5
   \<and> shift_state (block_held\<lparr>encoder_Increment := - 1\<rparr>) (ready_state\<lparr>first := False\<rparr>)
   \<and> cur_level (ready_state\<lparr>first := False\<rparr>) = 0.5
   \<and> cur_level (fst (AudioCallback (1/100) (block_held\<lparr>encoder_Increment := - 1\<rparr>)
        (ready_state\<lparr>first := False\<rparr>))) = 0.5"
  by (simp add: AudioCallback_def Let_def ready_state_def boot_state_def block_idle_def
      block_held_def shift_state_def fclamp_def signed_divide_int_def)

subsection \<open>Mix routing\<close>

text \<open>
  Claim C6. On every processed block the distortion engine receives one hard value, 1 if
  the clip switch is in the centre or the external gate is active and 0 otherwise. Let
  the mix value be the clamped value of the mix control after the knobs have been routed.
  If the hard value is at least 0.5, the block sets the dry/wet parameter once, to 1, and
  the silicon/LED parameter once, to the mix value. Otherwise it sets the dry/wet
  parameter once, to the mix value, and does not set the silicon/LED parameter, which
  keeps the value the engine had for it.
\<close>

theorem mix_routing:
  assumes "initialized s"
  shows "let h = (if sw_left hw = POS_CENTER \<or> hw_Gate hw then 1 else 0 :: real) in
         dist_sets P_HARD (snd (AudioCallback tol hw s)) = [h]
         \<and> (if h \<ge> 0.5 then
               dist_sets P_DRYWET (snd (AudioCallback tol hw s)) = [1]
               \<and> dist_sets P_SILED (snd (AudioCallback tol hw s))
                   = [fclamp (Get (cv_mix (fst (AudioCallback tol hw s)))) 0 1]
               \<and> dist_store (snd (AudioCallback tol hw s)) m P_DRYWET = 1
               \<and> dist_store (snd (AudioCallback tol hw s)) m P_SILED
                   = fclamp (Get (cv_mix (fst (AudioCallback tol hw s)))) 0 1
             else
               dist_sets P_DRYWET (snd (AudioCallback tol hw s))
                   = [fclamp (Get (cv_mix (fst (AudioCallback tol hw s)))) 0 1]
               \<and> dist_sets P_SILED (snd (AudioCallback tol hw s)) = []
               \<and> dist_store (snd (AudioCallback tol hw s)) m P_DRYWET
                   = fclamp (Get (cv_mix (fst (AudioCallback tol hw s)))) 0 1
               \<and> dist_store (snd (AudioCallback tol hw s)) m P_SILED = m P_SILED)"
  using assms by (simp add: AudioCallback_def Let_def)

text \<open>The state of the witness is reached from boot: the boot window ends, and a first
  block with the bottom knob at 0 lets the mix control catch the knob. The block looked
  at is the second one, with the bottom knob at 0.7, once with the clip switch in the
  centre and once with it up.\<close>

theorem mix_routing_witness:
  "run (1/100) [Main_Iteration 1001, Audio_Block (block_idle\<lparr>knob_bottom := 0\<rparr>)]
      (boot_state False 0) = playing_state
   \<and> initialized playing_state
   \<and> dist_sets P_HARD (snd (AudioCallback (1/100) (block_idle\<lparr>sw_left := POS_CENTER\<rparr>)
        playing_state)) = [1]
   \<and> dist_sets P_DRYWET (snd (AudioCallback (1/100) (block_idle\<lparr>sw_left := POS_CENTER\<rparr>)
        playing_state)) = [1]
   \<and> dist_sets P_SILED (snd (AudioCallback (1/100) (block_idle\<lparr>sw_left := POS_CENTER\<rparr>)
        playing_state)) = [0.7]
   \<and> dist_sets P_HARD (snd (AudioCallback (1/100) block_idle playing_state)) = [0]
   \<and> dist_sets P_DRYWET (snd (AudioCallback (1/100) block_idle playing_state)) = [0.7]
   \<and> dist_sets P_SILED (snd (AudioCallback (1/100) block_idle playing_state)) = []
   \<and> dist_store (snd (AudioCallback (1/100) block_idle playing_state))
        ((\<lambda>p. 0)(P_SILED := 0.25)) P_SILED = 0.25"
proof -
  have reached: "run (1/100) [Main_Iteration 1001, Audio_Block (block_idle\<lparr>knob_bottom := 0\<rparr>)]
      (boot_state False 0) = playing_state"
    by (simp add: main_iteration_def AudioCallback_def Let_def boot_state_def block_idle_def
        playing_state_def shift_state_def Update_def Lock_def fclamp_def
        signed_divide_int_def)
  have ready: "initialized playing_state"
    by (simp add: playing_state_def)
  have mix: "fclamp (Get (cv_mix (fst (AudioCallback (1/100)
        (block_idle\<lparr>sw_left := POS_CENTER\<rparr>) playing_state)))) 0 1 = 0.7"
    "fclamp (Get (cv_mix (fst (AudioCallback (1/100) block_idle playing_state)))) 0 1 = 0.7"
    by (simp_all add: AudioCallback_def Let_def playing_state_def block_idle_def
        shift_state_def Update_def Get_def fclamp_def)
  show ?thesis
    using reached ready mix
      mix_routing [OF ready, of "block_idle\<lparr>sw_left := POS_CENTER\<rparr>" "1/100" "\<lambda>p. 0"]
      mix_routing [OF ready, of block_idle "1/100" "(\<lambda>p. 0)(P_SILED := 0.25)"]
    by (simp add: block_idle_def)
qed

subsection \<open>Gate dispatch\<close>

lemma callback_ready:
  "initialized s \<Longrightarrow>
     initialized (fst (AudioCallback tol hw s)) \<and> \<not> first (fst (AudioCallback tol hw s))"
  by (simp add: AudioCallback_def Let_def)

lemma callback_gate_count:
  "initialized s \<Longrightarrow>
     count_list (snd (AudioCallback tol hw s)) Ng_Update
       = (if first s \<or> encoder_Pressed hw then 1 else 0)
     \<and> length (ng_sets NG_P_THRESHOLD (snd (AudioCallback tol hw s)))
       = (if first s \<or> encoder_Pressed hw then 1 else 0)
     \<and> length (ng_sets NG_P_RELEASE (snd (AudioCallback tol hw s)))
       = (if first s \<or> encoder_Pressed hw then 1 else 0)
     \<and> length (ng_sets NG_P_BYPASS (snd (AudioCallback tol hw s)))
       = (if first s \<or> encoder_Pressed hw then 1 else 0)"
  by (simp add: AudioCallback_def Let_def shift_state_def)

lemma run_blocks_nth:
  "initialized s \<Longrightarrow> k < length hws \<Longrightarrow>
     fst (run_blocks tol hws s ! k) = (encoder_Pressed (hws ! k) \<and> \<not> (k = 0 \<and> first s))
     \<and> count_list (snd (run_blocks tol hws s ! k)) Ng_Update
         = (if (k = 0 \<and> first s) \<or> encoder_Pressed (hws ! k) then 1 else 0)
     \<and> length (ng_sets NG_P_THRESHOLD (snd (run_blocks tol hws s ! k)))
         = (if (k = 0 \<and> first s) \<or> encoder_Pressed (hws ! k) then 1 else 0)
     \<and> length (ng_sets NG_P_RELEASE (snd (run_blocks tol hws s ! k)))
         = (if (k = 0 \<and> first s) \<or> encoder_Pressed (hws ! k) then 1 else 0)
     \<and> length (ng_sets NG_P_BYPASS (snd (run_blocks tol hws s ! k)))
         = (if (k = 0 \<and> first s) \<or> encoder_Pressed (hws ! k) then 1 else 0)"
proof (induction hws arbitrary: s k)
  case Nil
  then show ?case by simp
next
  case (Cons hw hws)
  show ?case
  proof (cases k)
    case 0
    with Cons.prems callback_gate_count [of s tol hw] show ?thesis
      by (simp add: shift_state_def)
  next
    case (Suc j)
    have next_ready: "initialized (fst (AudioCallback tol hw s))"
      and not_first: "\<not> first (fst (AudioCallback tol hw s))"
      using callback_ready [of s tol hw] Cons.prems(1) by simp_all
    from Suc Cons.prems(2) have "j < length hws" by simp
    from Cons.IH [OF next_ready this] not_first Suc show ?thesis
      by simp
  qed
qed

text \<open>
  Claim C1, amended. In a sequence of processed blocks that starts with the first one,
  the shift state of a block is the encoder being held on any block but the first, and
  the gate is re-parameterized (threshold, release and bypass pushed once each, the
  engine's update invoked once) exactly on the first block and on every block whose shift
  state is on; on every other block nothing is pushed and the update is not invoked.
\<close>

theorem gate_reparam_when_shifted:
  assumes "initialized s" and "first s" and "k < length hws"
  shows "fst (run_blocks tol hws s ! k) = (k \<noteq> 0 \<and> encoder_Pressed (hws ! k))
     \<and> count_list (snd (run_blocks tol hws s ! k)) Ng_Update
         = (if k = 0 \<or> fst (run_blocks tol hws s ! k) then 1 else 0)
     \<and> length (ng_sets NG_P_THRESHOLD (snd (run_blocks tol hws s ! k)))
         = (if k = 0 \<or> fst (run_blocks tol hws s ! k) then 1 else 0)
     \<and> length (ng_sets NG_P_RELEASE (snd (run_blocks tol hws s ! k)))
         = (if k = 0 \<or> fst (run_blocks tol hws s ! k) then 1 else 0)
     \<and> length (ng_sets NG_P_BYPASS (snd (run_blocks tol hws s ! k)))
         = (if k = 0 \<or> fst (run_blocks tol hws s ! k) then 1 else 0)"
  using run_blocks_nth [OF assms(1) assms(3), of tol] assms(2) by auto

theorem gate_reparam_when_shifted_witness:
  "initialized ready_state \<and> first ready_state
   \<and> map fst (run_blocks (1/100) [block_idle, block_held, block_held, block_idle] ready_state)
       = [False, True, True, False]
   \<and> count_list (snd (run_blocks (1/100) [block_idle, block_held, block_held, block_idle]
         ready_state ! 0)) Ng_Update = 1
   \<and> count_list (snd (run_blocks (1/100) [block_idle, block_held, block_held, block_idle]
         ready_state ! 1)) Ng_Update = 1
   \<and> count_list (snd (run_blocks (1/100) [block_idle, block_held, block_held, block_idle]
         ready_state ! 2)) Ng_Update = 1
   \<and> count_list (snd (run_blocks (1/100) [block_idle, block_held, block_held, block_idle]
         ready_state ! 3)) Ng_Update = 0"
proof -
  have ready: "initialized ready_state"
    by (simp add: ready_state_def)
  have fresh: "first ready_state"
    by (simp add: ready_state_def boot_state_def)
  have shifts: "map fst (run_blocks (1/100) [block_idle, block_held, block_held, block_idle]
      ready_state) = [False, True, True, False]"
    by (simp add: shift_state_def AudioCallback_def Let_def ready_state_def
        boot_state_def block_idle_def block_held_def)
  have len: "(0::nat) < length [block_idle, block_held, block_held, block_idle]"
    "(1::nat) < length [block_idle, block_held, block_held, block_idle]"
    "(2::nat) < length [block_idle, block_held, block_held, block_idle]"
    "(3::nat) < length [block_idle, block_held, block_held, block_idle]"
    by simp_all
  show ?thesis
    using ready fresh shifts
      gate_reparam_when_shifted [OF ready fresh len(1), of "1/100"]
      gate_reparam_when_shifted [OF ready fresh len(2), of "1/100"]
      gate_reparam_when_shifted [OF ready fresh len(3), of "1/100"]
      gate_reparam_when_shifted [OF ready fresh len(4), of "1/100"]
    by (simp add: block_idle_def block_held_def)
qed

text \<open>
  Claim C1 as the specification states it fails on the sample run. Its third block is
  shifted like the second, so no transition is due, and the gate is re-parameterized; its
  fourth block releases the shift, so a transition is due, and the gate is left alone.
\<close>

theorem gate_reparam_transition_counterexample:
  "\<not> spec_reparam_due (map fst sample_run) 2
   \<and> count_list (snd (sample_run ! 2)) Ng_Update = 1
   \<and> spec_reparam_due (map fst sample_run) 3
   \<and> count_list (snd (sample_run ! 3)) Ng_Update = 0"
  by (simp add: spec_reparam_due_def sample_run_def shift_state_def AudioCallback_def Let_def
      ready_state_def boot_state_def block_idle_def block_held_def)

text \<open>
  Claim C4. Whenever a processed block invokes the gate's update, the threshold it pushes
  is the value of the threshold control, and the bypass flag it pushes is 1 if that value
  is below 0.05 and 0 otherwise. The witness has the thresholds 0.04, with bypass 1, and
  0.06, with bypass 0.
\<close>

theorem gate_bypass_cutoff:
  assumes "initialized s"
    and "Ng_Update \<in> set (snd (AudioCallback tol hw s))"
  shows "ng_sets NG_P_THRESHOLD (snd (AudioCallback tol hw s))
           = [Get (ng_threshold (fst (AudioCallback tol hw s)))]
       \<and> ng_sets NG_P_BYPASS (snd (AudioCallback tol hw s))
           = [if Get (ng_threshold (fst (AudioCallback tol hw s))) < 0.05 then 1 else 0]"
  using assms by (simp add: AudioCallback_def Let_def split: if_splits)

theorem gate_bypass_cutoff_witness:
  "initialized (ready_state\<lparr>first := False, ng_threshold := \<lparr>heldValue = 0.5, tracking = True\<rparr>\<rparr>)
   \<and> Ng_Update \<in> set (snd (AudioCallback (1/100) (block_held\<lparr>knob_top := 0.04\<rparr>)
        (ready_state\<lparr>first := False, ng_threshold := \<lparr>heldValue = 0.5, tracking = True\<rparr>\<rparr>)))
   \<and> ng_sets NG_P_THRESHOLD (snd (AudioCallback (1/100) (block_held\<lparr>knob_top := 0.04\<rparr>)
        (ready_state\<lparr>first := False, ng_threshold := \<lparr>heldValue = 0.5, tracking = True\<rparr>\<rparr>)))
       = [0.04]
   \<and> ng_sets NG_P_BYPASS (snd (AudioCallback (1/100) (block_held\<lparr>knob_top := 0.04\<rparr>)
        (ready_state\<lparr>first := False, ng_threshold := \<lparr>heldValue = 0.5, tracking = True\<rparr>\<rparr>)))
       = [1]
   \<and> Ng_Update \<in> set (snd (AudioCallback (1/100) (block_held\<lparr>knob_top := 0.06\<rparr>)
        (ready_state\<lparr>first := False, ng_threshold := \<lparr>heldValue = 0.5, tracking = True\<rparr>\<rparr>)))
   \<and> ng_sets NG_P_THRESHOLD (snd (AudioCallback (1/100) (block_held\<lparr>knob_top := 0.06\<rparr>)
        (ready_state\<lparr>first := False, ng_threshold := \<lparr>heldValue = 0.5, tracking = True\<rparr>\<rparr>)))
       = [0.06]
   \<and> ng_sets NG_P_BYPASS (snd (AudioCallback (1/100) (block_held\<lparr>knob_top := 0.06\<rparr>)
        (ready_state\<lparr>first := False, ng_threshold := \<lparr>heldValue = 0.5, tracking = True\<rparr>\<rparr>)))
       = [0]"
proof -
  have ready: "initialized
      (ready_state\<lparr>first := False, ng_threshold := \<lparr>heldValue = 0.5, tracking = True\<rparr>\<rparr>)"
    by (simp add: ready_state_def)
  have fires: "Ng_Update \<in> set (snd (AudioCallback (1/100) (block_held\<lparr>knob_top := 0.04\<rparr>)
        (ready_state\<lparr>first := False, ng_threshold := \<lparr>heldValue = 0.5, tracking = True\<rparr>\<rparr>)))"
    "Ng_Update \<in> set (snd (AudioCallback (1/100) (block_held\<lparr>knob_top := 0.06\<rparr>)
        (ready_state\<lparr>first := False, ng_threshold := \<lparr>heldValue = 0.5, tracking = True\<rparr>\<rparr>)))"
    by (simp_all add: AudioCallback_def Let_def ready_state_def block_held_def shift_state_def)
  have thr: "Get (ng_threshold (fst (AudioCallback (1/100) (block_held\<lparr>knob_top := 0.04\<rparr>)
        (ready_state\<lparr>first := False, ng_threshold := \<lparr>heldValue = 0.5, tracking = True\<rparr>\<rparr>))))
       = 0.04"
    "Get (ng_threshold (fst (AudioCallback (1/100) (block_held\<lparr>knob_top := 0.06\<rparr>)
        (ready_state\<lparr>first := False, ng_threshold := \<lparr>heldValue = 0.5, tracking = True\<rparr>\<rparr>))))
       = 0.06"
    by (simp_all add: AudioCallback_def Let_def ready_state_def block_held_def block_idle_def
        shift_state_def Update_def Get_def)
  show ?thesis
    using ready fires thr
      gate_bypass_cutoff [OF ready fires(1)]
      gate_bypass_cutoff [OF ready fires(2)]
    by simp
qed

lemma boot_keeps_defaults: "keeps_defaults (boot_state t b)"
  by (simp add: keeps_defaults_def boot_state_def)

lemma step_keeps_defaults: "keeps_defaults s \<Longrightarrow> keeps_defaults (fst (step tol e s))"
  by (cases e) (simp_all add: keeps_defaults_def main_iteration_def AudioCallback_def Let_def)

lemma run_keeps_defaults: "keeps_defaults s \<Longrightarrow> keeps_defaults (run tol es s)"
  by (induction es arbitrary: s) (simp_all add: step_keeps_defaults)

lemma first_block_dispatch:
  assumes "initialized s" and "first s"
    and "heldValue (ng_threshold s) = 0.4" and "heldValue (ng_release s) = 0.5"
  shows "\<not> shift_state hw s
     \<and> grab_calls (snd (AudioCallback tol hw s))
         = [Grab_Update Cv_filter (knob_top hw), Grab_Update Cv_mix (knob_bottom hw),
            Grab_Lock Ng_threshold, Grab_Lock Ng_release]
     \<and> ng_sets NG_P_THRESHOLD (snd (AudioCallback tol hw s)) = [0.4]
     \<and> ng_sets NG_P_RELEASE (snd (AudioCallback tol hw s)) = [0.5]
     \<and> ng_sets NG_P_BYPASS (snd (AudioCallback tol hw s)) = [0]
     \<and> count_list (snd (AudioCallback tol hw s)) Ng_Update = 1"
  using assms
  by (simp add: AudioCallback_def Let_def shift_state_def Lock_def Get_def)

text \<open>
  Claim C10. Take any state reached from boot by iterations of the status loop and audio
  blocks in which the boot window is over and no block has been processed yet. The block
  processed next has its shift state off whatever the encoder does, locks the threshold
  and release controls, and re-parameterizes the gate once, with threshold 0.4, release
  0.5 and bypass 0, whatever the knobs read.
\<close>

theorem first_block_gate_defaults:
  assumes "s = run tol es (boot_state t b)" and "initialized s" and "first s"
  shows "\<not> shift_state hw s
     \<and> grab_calls (snd (AudioCallback tol hw s))
         = [Grab_Update Cv_filter (knob_top hw), Grab_Update Cv_mix (knob_bottom hw),
            Grab_Lock Ng_threshold, Grab_Lock Ng_release]
     \<and> ng_sets NG_P_THRESHOLD (snd (AudioCallback tol hw s)) = [0.4]
     \<and> ng_sets NG_P_RELEASE (snd (AudioCallback tol hw s)) = [0.5]
     \<and> ng_sets NG_P_BYPASS (snd (AudioCallback tol hw s)) = [0]
     \<and> count_list (snd (AudioCallback tol hw s)) Ng_Update = 1"
proof -
  have "keeps_defaults s"
    unfolding assms(1) by (rule run_keeps_defaults) (rule boot_keeps_defaults)
  with assms(3) have "heldValue (ng_threshold s) = 0.4" and "heldValue (ng_release s) = 0.5"
    by (simp_all add: keeps_defaults_def)
  with assms(2,3) show ?thesis
    by (rule first_block_dispatch)
qed

theorem first_block_gate_defaults_witness:
  "initialized (run (1/100) [Audio_Block block_held, Main_Iteration 1001, Main_Iteration 1002]
      (boot_state False 0))
   \<and> first (run (1/100) [Audio_Block block_held, Main_Iteration 1001, Main_Iteration 1002]
      (boot_state False 0))
   \<and> encoder_Pressed (block_held\<lparr>knob_top := 0.9\<rparr>)
   \<and> ng_sets NG_P_THRESHOLD (snd (AudioCallback (1/100) (block_held\<lparr>knob_top := 0.9\<rparr>)
        (run (1/100) [Audio_Block block_held, Main_Iteration 1001, Main_Iteration 1002]
           (boot_state False 0)))) = [0.4]
   \<and> ng_sets NG_P_RELEASE (snd (AudioCallback (1/100) (block_held\<lparr>knob_top := 0.9\<rparr>)
        (run (1/100) [Audio_Block block_held, Main_Iteration 1001, Main_Iteration 1002]
           (boot_state False 0)))) = [0.5]
   \<and> ng_sets NG_P_BYPASS (snd (AudioCallback (1/100) (block_held\<lparr>knob_top := 0.9\<rparr>)
        (run (1/100) [Audio_Block block_held, Main_Iteration 1001, Main_Iteration 1002]
           (boot_state False 0)))) = [0]"
proof -
  have reached: "run (1/100) [Audio_Block block_held, Main_Iteration 1001, Main_Iteration 1002]
      (boot_state False 0) = (boot_state False 0)\<lparr>initialized := True\<rparr>"
    by (simp add: main_iteration_def AudioCallback_def boot_state_def)
  have ready: "initialized (run (1/100)
      [Audio_Block block_held, Main_Iteration 1001, Main_Iteration 1002] (boot_state False 0))"
    unfolding reached by simp
  have fresh: "first (run (1/100)
      [Audio_Block block_held, Main_Iteration 1001, Main_Iteration 1002] (boot_state False 0))"
    unfolding reached by (simp add: boot_state_def)
  have held: "encoder_Pressed (block_held\<lparr>knob_top := 0.9\<rparr>)"
    by (simp add: block_held_def)
  show ?thesis
    using ready fresh held
      first_block_gate_defaults [OF refl ready fresh, of "block_held\<lparr>knob_top := 0.9\<rparr>"]
    by simp
qed

subsection \<open>Processing and telemetry\<close>

text \<open>
  Claim C2. On every processed block the audio is processed by the last two calls of the
  block, after the parameters have been dispatched. First the distortion engine processes
  the stereo input block: it reads the two input buffers and writes the two output
  buffers. Then the gate is called with six arguments, the last one the block size: the
  signal it works on is the output of the distortion, left and right, the signal whose
  level it detects is the original left input, untouched by the distortion, and it writes
  the two output buffers, which end up holding the gated distortion output.
\<close>

theorem gate_reads_distortion_output:
  assumes "initialized s"
  shows "process_calls (snd (AudioCallback tol hw s))
           = [Dist_Process IN_L IN_R OUT_L OUT_R (block_size hw),
              Ng_Process OUT_L OUT_R IN_L OUT_L OUT_R (block_size hw)]
       \<and> last (butlast (snd (AudioCallback tol hw s)))
           = Dist_Process IN_L IN_R OUT_L OUT_R (block_size hw)
       \<and> last (snd (AudioCallback tol hw s))
           = Ng_Process OUT_L OUT_R IN_L OUT_L OUT_R (block_size hw)
       \<and> ng_process_reads (snd (AudioCallback tol hw s)) Raw
           = [\<lparr>gatedLeft = Dist_L (Raw IN_L) (Raw IN_R),
               gatedRight = Dist_R (Raw IN_L) (Raw IN_R),
               detection = Raw IN_L\<rparr>]
       \<and> buffers_after (snd (AudioCallback tol hw s)) OUT_L
           = Gate_L (Dist_L (Raw IN_L) (Raw IN_R)) (Dist_R (Raw IN_L) (Raw IN_R)) (Raw IN_L)
       \<and> buffers_after (snd (AudioCallback tol hw s)) OUT_R
           = Gate_R (Dist_L (Raw IN_L) (Raw IN_R)) (Dist_R (Raw IN_L) (Raw IN_R)) (Raw IN_L)"
  using assms by (simp add: AudioCallback_def Let_def buffers_after_def)

theorem gate_reads_distortion_output_witness:
  "initialized playing_state
   \<and> process_calls (snd (AudioCallback (1/100) block_held playing_state))
       = [Dist_Process IN_L IN_R OUT_L OUT_R 4, Ng_Process OUT_L OUT_R IN_L OUT_L OUT_R 4]
   \<and> map detection (ng_process_reads (snd (AudioCallback (1/100) block_held playing_state)) Raw)
       = [Raw IN_L]
   \<and> map gatedLeft (ng_process_reads (snd (AudioCallback (1/100) block_held playing_state)) Raw)
       = [Dist_L (Raw IN_L) (Raw IN_R)]
   \<and> map gatedRight (ng_process_reads (snd (AudioCallback (1/100) block_held playing_state)) Raw)
       = [Dist_R (Raw IN_L) (Raw IN_R)]
   \<and> buffers_after (snd (AudioCallback (1/100) block_held playing_state)) OUT_L
       = Gate_L (Dist_L (Raw IN_L) (Raw IN_R)) (Dist_R (Raw IN_L) (Raw IN_R)) (Raw IN_L)"
proof -
  have ready: "initialized playing_state"
    by (simp add: playing_state_def)
  show ?thesis
    using ready gate_reads_distortion_output [OF ready, of "1/100" block_held]
    by (simp add: block_held_def block_idle_def)
qed

text \<open>
  Claim C9. After every processed block the exported saturation level is the saturation
  the distortion engine reports, divided by 5 and clamped to the interval from 0 to 1, and
  the exported envelope level is the envelope the gate reports, multiplied by 2.5 and
  clamped to the same interval. The witness has a saturation of 5, exported as 1, and an
  envelope of 0.5, exported as 1.
\<close>

theorem telemetry_scaling:
  assumes "initialized s"
  shows "satVal (fst (AudioCallback tol hw s)) = fclamp (dist_GetSaturation hw / 5) 0 1
       \<and> envVal (fst (AudioCallback tol hw s)) = fclamp (ng_GetEnvelope hw * 2.5) 0 1"
  using assms by (simp add: AudioCallback_def Let_def)

theorem telemetry_scaling_witness:
  "initialized ready_state
   \<and> dist_GetSaturation block_idle = 5 \<and> ng_GetEnvelope block_idle = 0.5
   \<and> satVal (fst (AudioCallback (1/100) block_idle ready_state)) = 1
   \<and> envVal (fst (AudioCallback (1/100) block_idle ready_state)) = 1"
proof -
  have ready: "initialized ready_state"
    by (simp add: ready_state_def)
  show ?thesis
    using ready telemetry_scaling [OF ready, of "1/100" block_idle]
    by (simp add: block_idle_def fclamp_def)
qed

subsection \<open>Boot and status\<close>

lemma step_keeps_initialized: "initialized s \<Longrightarrow> initialized (fst (step tol e s))"
  by (cases e) (simp_all add: main_iteration_def AudioCallback_def Let_def)

lemma run_keeps_initialized: "initialized s \<Longrightarrow> initialized (run tol es s)"
  by (induction es arbitrary: s) (simp_all add: step_keeps_initialized)

text \<open>
  Claim C8. The flag \<^verbatim>\<open>initialized\<close> is the boot state: off is BLINKING, on is READY.
  Once on, it stays on through every sequence of status-loop iterations and audio blocks.
  While it is off, an audio block never turns it on, and a status-loop iteration turns it
  on exactly when the time elapsed since boot, computed on 32 bits, is not below 1000; so
  it stays off at 999 ms and goes on at 1001 ms. While it is off, an audio block changes
  nothing in the state, calls nothing but the control poll and the copy, and leaves the
  two output buffers equal to the two input buffers. While it is on, every status-loop
  iteration sets the left LED to (0, envelope level, 0) and the right LED to
  (saturation level, 0, 0), updates the LEDs, and changes nothing in the state. The time
  of boot is never changed.
\<close>

theorem boot_state_machine:
  "(initialized s \<longrightarrow> initialized (run tol es s))
   \<and> (\<not> initialized s \<longrightarrow>
        initialized (fst (step tol (Main_Iteration now) s)) = (\<not> now - boottime s < 1000)
        \<and> \<not> initialized (fst (step tol (Audio_Block hw) s)))
   \<and> (\<not> initialized s \<longrightarrow>
        \<not> initialized (fst (main_iteration (boottime s + 999) s))
        \<and> initialized (fst (main_iteration (boottime s + 1001) s)))
   \<and> (\<not> initialized s \<longrightarrow>
        AudioCallback tol hw s
          = (s, [Hw_ProcessAnalogControls, Utils_Copy IN_L IN_R OUT_L OUT_R (block_size hw)])
        \<and> buffers_after (snd (AudioCallback tol hw s)) OUT_L = Raw IN_L
        \<and> buffers_after (snd (AudioCallback tol hw s)) OUT_R = Raw IN_R)
   \<and> (initialized s \<longrightarrow>
        main_iteration now s
          = (s, [Hw_SetLed LED_LEFT 0 (envVal s) 0, Hw_SetLed LED_RIGHT (satVal s) 0 0,
                 Hw_UpdateLeds]))
   \<and> boottime (fst (step tol e s)) = boottime s"
proof -
  have one_way: "initialized s \<longrightarrow> initialized (run tol es s)"
    by (simp add: run_keeps_initialized)
  have timer: "\<not> initialized s \<longrightarrow>
        initialized (fst (step tol (Main_Iteration now) s)) = (\<not> now - boottime s < 1000)
        \<and> \<not> initialized (fst (step tol (Audio_Block hw) s))"
    by (simp add: main_iteration_def AudioCallback_def)
  have window: "\<not> initialized s \<longrightarrow>
        \<not> initialized (fst (main_iteration (boottime s + 999) s))
        \<and> initialized (fst (main_iteration (boottime s + 1001) s))"
    by (simp add: main_iteration_def)
  have pass_through: "\<not> initialized s \<longrightarrow>
        AudioCallback tol hw s
          = (s, [Hw_ProcessAnalogControls, Utils_Copy IN_L IN_R OUT_L OUT_R (block_size hw)])
        \<and> buffers_after (snd (AudioCallback tol hw s)) OUT_L = Raw IN_L
        \<and> buffers_after (snd (AudioCallback tol hw s)) OUT_R = Raw IN_R"
    by (simp add: AudioCallback_def buffers_after_def)
  have render: "initialized s \<longrightarrow>
        main_iteration now s
          = (s, [Hw_SetLed LED_LEFT 0 (envVal s) 0, Hw_SetLed LED_RIGHT (satVal s) 0 0,
                 Hw_UpdateLeds])"
    by (simp add: main_iteration_def)
  have clock: "boottime (fst (step tol e s)) = boottime s"
    by (cases e) (simp_all add: main_iteration_def AudioCallback_def Let_def)
  from one_way timer window pass_through render clock show ?thesis
    by blast
qed

theorem boot_state_machine_witness:
  "\<not> initialized (boot_state False 7)
   \<and> \<not> initialized (fst (main_iteration 1006 (boot_state False 7)))
   \<and> initialized (fst (main_iteration 1008 (boot_state False 7)))
   \<and> AudioCallback (1/100) block_held (boot_state False 7)
       = (boot_state False 7, [Hw_ProcessAnalogControls, Utils_Copy IN_L IN_R OUT_L OUT_R 4])
   \<and> buffers_after (snd (AudioCallback (1/100) block_held (boot_state False 7))) OUT_L = Raw IN_L
   \<and> buffers_after (snd (AudioCallback (1/100) block_held (boot_state False 7))) OUT_R = Raw IN_R
   \<and> initialized ready_state
   \<and> initialized (run (1/100) [Audio_Block block_idle, Main_Iteration 5, Audio_Block block_held]
        ready_state)
   \<and> main_iteration 2000 ready_state
       = (ready_state, [Hw_SetLed LED_LEFT 0 0 0, Hw_SetLed LED_RIGHT 0 0 0, Hw_UpdateLeds])"
proof -
  have blinking: "\<not> initialized (boot_state False 7)"
    by (simp add: boot_state_def)
  have ready: "initialized ready_state"
    by (simp add: ready_state_def)
  have b7: "boottime (boot_state False 7) = 7"
    by (simp add: boot_state_def)
  have tel: "envVal ready_state = 0 \<and> satVal ready_state = 0"
    by (simp add: ready_state_def boot_state_def)
  show ?thesis
    using blinking ready b7 tel
      boot_state_machine [of "boot_state False 7" "1/100" "[]" 0 block_held "Main_Iteration 0"]
      boot_state_machine [of ready_state "1/100"
        "[Audio_Block block_idle, Main_Iteration 5, Audio_Block block_held]" 2000 block_idle
        "Main_Iteration 0"]
    by (simp add: buffers_after_def block_held_def block_idle_def)
qed

end
